theory Spec2Isabelle
  imports Main "HOL-Library.Word" "HOL-Library.AList" "HOL-Library.Multiset"
begin

section \<open>Shared value types\<close>

text \<open>
  An \<open>os.Signal\<close> is modelled by its \<open>syscall.Signal\<close> number. The three signals the
  handler treats as termination-class carry their Linux numbers.
\<close>

type_synonym signal = nat

definition SIGINT :: signal where "SIGINT = 2"
definition SIGQUIT :: signal where "SIGQUIT = 3"
definition SIGTERM :: signal where "SIGTERM = 15"

datatype et = ExitTypeSignal | ExitTypeManual

record OSSignal =
  Signal :: "signal option"
  Exit :: bool
  ExitType :: et
  ExitCode :: int

text \<open>
  The \<open>context.Context\<close> handed to \<open>Exec\<close> carries at most the value stored under the key
  \<open>"signal"\<close>: a pointer to an \<open>OSSignal\<close>.
\<close>

type_synonym "context" = "OSSignal option"

text \<open>
  \<open>Function\<close> and \<open>Notify\<close> as declared with the \<open>Overwrite\<close> field that \<open>hook.Function\<close>
  and \<open>hook.Notify\<close> read. A callback body and a channel are opaque: \<open>None\<close> is Go's
  \<open>nil\<close>, \<open>Some k\<close> is the body or channel numbered \<open>k\<close>.
\<close>

record Function =
  Func :: "nat option"
  f_Name :: string
  f_Desc :: string
  f_Overwrite :: bool
  f_Order :: "16 word"
  Concurrent :: bool

record Notify =
  Chan :: "nat option"
  DoneChan :: "nat option"
  n_Name :: string
  n_Desc :: string
  n_Overwrite :: bool
  n_Order :: "16 word"
  NonBlocking :: bool

section \<open>The hook\<close>

datatype error =
    ErrFunctionExists string
  | ErrNotifyExists string
  | ErrFunctionNameEmpty
  | ErrNotifyNameEmpty
  | ErrFuncNil
  | ErrChanNil

datatype panic = NilDereference

text \<open>
  A Go map is an association list with distinct keys; the position of an entry in the list
  means nothing. Go leaves the order in which \<open>range\<close> visits a map unspecified, so each
  \<open>range\<close> over a map takes a traversal: a function that lists the entries of the map in
  the order of that visit. The slices \<open>functionOrder\<close> and \<open>notifyOrder\<close> hold pointers,
  which \<open>clear\<close> sets to \<open>nil\<close>. The field \<open>functions\<close> of \<open>hook\<close> is \<open>functionMap\<close>
  here, the source's name being a reserved word.
\<close>

type_synonym 'a gomap = "(string \<times> 'a) list"
type_synonym 'a traversal = "'a gomap \<Rightarrow> 'a gomap"

definition valid_traversal :: "'a traversal \<Rightarrow> bool" where
  "valid_traversal t = (\<forall>m. mset (t m) = mset m)"

record hook =
  name :: string
  desc :: string
  functionMap :: "Function gomap"
  notifies :: "Notify gomap"
  doReorder :: bool
  functionOrder :: "Function option list"
  notifyOrder :: "Notify option list"

definition NewHook :: "string \<Rightarrow> string \<Rightarrow> hook" where
  "NewHook nm ds =
     \<lparr>name = nm, desc = ds, functionMap = [], notifies = [], doReorder = False,
      functionOrder = [], notifyOrder = []\<rparr>"

text \<open>The builtin \<open>clear\<close> on a slice zeroes every element and keeps the length.\<close>

definition clear_slice :: "'a option list \<Rightarrow> 'a option list" where
  "clear_slice xs = map (\<lambda>_. None) xs"

text \<open>The inner \<open>range\<close> loops of \<open>reorder\<close>, over the values in the order of the visit.\<close>

fun scanFunctions :: "Function list \<Rightarrow> 16 word \<times> string \<Rightarrow> 16 word \<times> string" where
  "scanFunctions [] (lowest, lowestName) = (lowest, lowestName)"
| "scanFunctions (function # rest) (lowest, lowestName) =
     (if f_Order function \<le> lowest
      then scanFunctions rest (f_Order function, f_Name function)
      else scanFunctions rest (lowest, lowestName))"

fun scanNotifies :: "Notify list \<Rightarrow> 16 word \<times> string \<Rightarrow> 16 word \<times> string" where
  "scanNotifies [] (lowest, lowestName) = (lowest, lowestName)"
| "scanNotifies (notify # rest) (lowest, lowestName) =
     (if n_Order notify < lowest
      then scanNotifies rest (n_Order notify, n_Name notify)
      else scanNotifies rest (lowest, lowestName))"

text \<open>
  The outer loops \<open>for len(m) > 0\<close>. Each round costs one unit of fuel; \<open>None\<close> is a loop
  that has not stopped when the fuel is gone. \<open>m[lowestName]\<close> on a missing key is \<open>nil\<close>,
  and \<open>delete\<close> of a missing key does nothing.
\<close>

fun orderFunctions ::
  "nat \<Rightarrow> Function traversal \<Rightarrow> Function gomap \<Rightarrow> Function option list
     \<Rightarrow> (Function gomap \<times> Function option list) option" where
  "orderFunctions 0 trav m order = (if length m > 0 then None else Some (m, order))"
| "orderFunctions (Suc fuel) trav m order =
     (if length m > 0 then
        (let (lowest, lowestName) = scanFunctions (map snd (trav m)) (65535, '''')
         in orderFunctions fuel trav (AList.delete lowestName m) (order @ [map_of m lowestName]))
      else Some (m, order))"

fun orderNotifies ::
  "nat \<Rightarrow> Notify traversal \<Rightarrow> Notify gomap \<Rightarrow> Notify option list
     \<Rightarrow> (Notify gomap \<times> Notify option list) option" where
  "orderNotifies 0 trav m order = (if length m > 0 then None else Some (m, order))"
| "orderNotifies (Suc fuel) trav m order =
     (if length m > 0 then
        (let (lowest, lowestName) = scanNotifies (map snd (trav m)) (65535, '''')
         in orderNotifies fuel trav (AList.delete lowestName m) (order @ [map_of m lowestName]))
      else Some (m, order))"

text \<open>
  The two loops that put the entries back. Reading \<open>function.Name\<close> through a \<open>nil\<close>
  pointer panics.
\<close>

fun restoreFunctions :: "Function option list \<Rightarrow> Function gomap \<Rightarrow> panic + Function gomap" where
  "restoreFunctions [] m = Inr m"
| "restoreFunctions (None # rest) m = Inl NilDereference"
| "restoreFunctions (Some function # rest) m =
     restoreFunctions rest (AList.update (f_Name function) function m)"

fun restoreNotifies :: "Notify option list \<Rightarrow> Notify gomap \<Rightarrow> panic + Notify gomap" where
  "restoreNotifies [] m = Inr m"
| "restoreNotifies (None # rest) m = Inl NilDereference"
| "restoreNotifies (Some notify # rest) m =
     restoreNotifies rest (AList.update (n_Name notify) notify m)"

definition hook_reorder ::
  "nat \<Rightarrow> Function traversal \<Rightarrow> Notify traversal \<Rightarrow> hook \<Rightarrow> (panic + hook) option" where
  "hook_reorder fuel travF travN h =
     (if \<not> doReorder h then Some (Inr h)
      else
        (case orderFunctions fuel travF (functionMap h) (clear_slice (functionOrder h)) of
           None \<Rightarrow> None
         | Some (fm, fo) \<Rightarrow>
             (case orderNotifies fuel travN (notifies h) (clear_slice (notifyOrder h)) of
                None \<Rightarrow> None
              | Some (nm, no) \<Rightarrow>
                  (case restoreFunctions fo fm of
                     Inl p \<Rightarrow> Some (Inl p)
                   | Inr fm' \<Rightarrow>
                       (case restoreNotifies no nm of
                          Inl p \<Rightarrow> Some (Inl p)
                        | Inr nm' \<Rightarrow>
                            Some (Inr (h\<lparr>functionMap := fm', notifies := nm',
                                         functionOrder := fo, notifyOrder := no\<rparr>)))))))"

text \<open>
  What \<open>Exec\<close> does to the outside, in the order it does it: an inline call, a \<open>go\<close>
  statement, a blocking send, a send inside \<open>select\<close> with a \<open>default\<close>, a receive on the
  acknowledgement channel. A blocking send and a receive are taken to find their peer; a
  blocking send on a \<open>nil\<close> channel never returns. Calling a \<open>nil\<close> body panics.
\<close>

datatype event =
    Call Function "context"
  | Go Function "context"
  | Send Notify
  | TrySend Notify
  | Recv Notify

fun execFunctions :: "context \<Rightarrow> Function option list \<Rightarrow> panic + event list" where
  "execFunctions ctx [] = Inr []"
| "execFunctions ctx (None # rest) = Inl NilDereference"
| "execFunctions ctx (Some function # rest) =
     (if Func function = None then Inl NilDereference
      else
        (case execFunctions ctx rest of
           Inl p \<Rightarrow> Inl p
         | Inr evs \<Rightarrow>
             Inr ((if Concurrent function then Go function ctx else Call function ctx) # evs)))"

fun execNotifies :: "Notify option list \<Rightarrow> (panic + event list) option" where
  "execNotifies [] = Some (Inr [])"
| "execNotifies (None # rest) = Some (Inl NilDereference)"
| "execNotifies (Some notify # rest) =
     (if \<not> NonBlocking notify \<and> Chan notify = None then None
      else
        (case execNotifies rest of
           None \<Rightarrow> None
         | Some (Inl p) \<Rightarrow> Some (Inl p)
         | Some (Inr evs) \<Rightarrow>
             Some (Inr ((if NonBlocking notify then [TrySend notify] else [Send notify])
                        @ (if DoneChan notify \<noteq> None then [Recv notify] else [])
                        @ evs))))"

definition hook_Exec ::
  "nat \<Rightarrow> Function traversal \<Rightarrow> Notify traversal \<Rightarrow> context \<Rightarrow> hook
     \<Rightarrow> (panic + hook \<times> event list) option" where
  "hook_Exec fuel travF travN ctx h =
     (case hook_reorder fuel travF travN h of
        None \<Rightarrow> None
      | Some (Inl p) \<Rightarrow> Some (Inl p)
      | Some (Inr h') \<Rightarrow>
          (case execFunctions ctx (functionOrder h') of
             Inl p \<Rightarrow> Some (Inl p)
           | Inr evs \<Rightarrow>
               (case execNotifies (notifyOrder h') of
                  None \<Rightarrow> None
                | Some (Inl p) \<Rightarrow> Some (Inl p)
                | Some (Inr evs') \<Rightarrow> Some (Inr (h', evs @ evs')))))"

text \<open>Lookup takes the read lock and returns the entry or \<open>nil\<close>; the hook comes back as it was.\<close>

definition hook_GetFunction :: "string \<Rightarrow> hook \<Rightarrow> Function option \<times> hook" where
  "hook_GetFunction nm h = (map_of (functionMap h) nm, h)"

definition hook_GetNotify :: "string \<Rightarrow> hook \<Rightarrow> Notify option \<times> hook" where
  "hook_GetNotify nm h = (map_of (notifies h) nm, h)"

text \<open>Registration returns Go's \<open>error\<close> (\<open>None\<close> is \<open>nil\<close>) and the hook after the call.\<close>

definition hook_Function :: "Function \<Rightarrow> hook \<Rightarrow> error option \<times> hook" where
  "hook_Function function h =
     (if f_Name function = '''' then (Some ErrFunctionNameEmpty, h)
      else if Func function = None then (Some ErrFuncNil, h)
      else if map_of (functionMap h) (f_Name function) \<noteq> None \<and> \<not> f_Overwrite function
      then (Some (ErrFunctionExists (f_Name function)), h)
      else (None, h\<lparr>doReorder := True,
                     functionMap := AList.update (f_Name function) function (functionMap h)\<rparr>))"

definition hook_Notify :: "Notify \<Rightarrow> hook \<Rightarrow> error option \<times> hook" where
  "hook_Notify notify h =
     (if n_Name notify = '''' then (Some ErrNotifyNameEmpty, h)
      else if Chan notify = None then (Some ErrChanNil, h)
      else if map_of (notifies h) (n_Name notify) \<noteq> None \<and> \<not> n_Overwrite notify
      then (Some (ErrNotifyExists (n_Name notify)), h)
      else (None, h\<lparr>doReorder := True,
                     notifies := AList.update (n_Name notify) notify (notifies h)\<rparr>))"

section \<open>The handler\<close>

text \<open>
  \<open>Hook\<close> is an interface, and the handler only ever calls \<open>Exec\<close> on the values it
  holds. A hook value is a reference: \<open>Given k\<close> is a hook handed in by the caller,
  \<open>Created k\<close> is the \<open>k\<close>-th hook the handler made itself with \<open>NewHook\<close>. \<open>None\<close> is
  the \<open>nil\<close> interface value.
\<close>

datatype Hook = Given nat | Created nat

datatype herror = ErrSignalExists signal | ErrExitExists | ErrHookNil

text \<open>
  What the handler does to the outside: \<open>signal.Notify(h.sigCh, sig)\<close>, the call of
  \<open>Exec\<close> in \<open>handleSignal\<close>, the \<open>select\<close> that offers a value on \<open>exitCh\<close>, the call of
  \<open>Exec\<close> in \<open>exit\<close>, \<open>signal.Reset(h.capturing...)\<close> and \<open>os.Exit(code)\<close>. A call of
  \<open>Exec\<close> is recorded with the hook and the \<open>OSSignal\<close> its context points to, and is
  taken to return.
\<close>

datatype hevent =
    SignalNotify signal
  | ExecSignalHook Hook OSSignal
  | ExitChSend
  | ExecExitHook Hook OSSignal
  | SignalReset "signal list"
  | OsExit int

text \<open>
  The fields of \<open>handler\<close> that the methods below read or write, then the two parts of the
  world they act on: the hooks made with \<open>NewHook\<close> and the trace of outside effects.
  Every method runs with \<open>mu\<close> held, so each is one step. \<open>os.Exit\<close> ends the process;
  the model records it and goes on, so that a later call can be asked what it would do.
\<close>

record handler =
  exitHook :: "Hook option"
  hookMap :: "signal \<rightharpoonup> Hook"
  capturing :: "signal list"
  loopLock :: bool
  exitLock :: bool
  heap :: "hook list"
  trace :: "hevent list"

definition newHandler :: handler where
  "newHandler =
     \<lparr>exitHook = None, hookMap = Map.empty, capturing = [], loopLock = False,
      exitLock = False, heap = [], trace = []\<rparr>"

definition allocHook :: "string \<Rightarrow> string \<Rightarrow> handler \<Rightarrow> Hook \<times> handler" where
  "allocHook nm ds h = (Created (length (heap h)), h\<lparr>heap := heap h @ [NewHook nm ds]\<rparr>)"

text \<open>The body shared by \<open>setExit\<close> and \<open>set\<close>: start capturing a signal not yet captured.\<close>

definition capture :: "signal \<Rightarrow> handler \<Rightarrow> handler" where
  "capture sig h =
     (if sig \<notin> set (capturing h)
      then h\<lparr>trace := trace h @ [SignalNotify sig], capturing := capturing h @ [sig]\<rparr>
      else h)"

fun captureEach :: "signal list \<Rightarrow> handler \<Rightarrow> handler" where
  "captureEach [] h = h"
| "captureEach (sig # rest) h = captureEach rest (capture sig h)"

definition handler_setExit :: "Hook option \<Rightarrow> handler \<Rightarrow> herror option \<times> handler" where
  "handler_setExit hook h =
     (case hook of
        None \<Rightarrow> (Some ErrHookNil, h)
      | Some hk \<Rightarrow>
          if exitHook h \<noteq> None then (Some ErrExitExists, h)
          else (None, captureEach [SIGINT, SIGTERM, SIGQUIT] (h\<lparr>exitHook := Some hk\<rparr>)))"

definition handler_SetExit :: "Hook option \<Rightarrow> handler \<Rightarrow> herror option \<times> handler" where
  "handler_SetExit hook h = handler_setExit hook h"

definition handler_GetExit :: "handler \<Rightarrow> Hook option \<times> handler" where
  "handler_GetExit h = (exitHook h, h)"

definition handler_GetsExit :: "handler \<Rightarrow> Hook option \<times> handler" where
  "handler_GetsExit h =
     (if exitHook h = None then
        (let (hk, h1) = allocHook ''exit'' ''Handle program exit'' h;
             (err, h2) = handler_setExit (Some hk) h1
         in (exitHook h2, h2))
      else (exitHook h, h))"

definition handler_set :: "signal \<Rightarrow> Hook option \<Rightarrow> handler \<Rightarrow> herror option \<times> handler" where
  "handler_set sig hook h =
     (case hook of
        None \<Rightarrow> (Some ErrHookNil, h)
      | Some hk \<Rightarrow>
          if hookMap h sig \<noteq> None then (Some (ErrSignalExists sig), h)
          else (None, capture sig (h\<lparr>hookMap := (hookMap h)(sig \<mapsto> hk)\<rparr>)))"

definition handler_Set :: "signal \<Rightarrow> Hook option \<Rightarrow> handler \<Rightarrow> herror option \<times> handler" where
  "handler_Set sig hook h = handler_set sig hook h"

definition handler_Get :: "signal \<Rightarrow> handler \<Rightarrow> Hook option \<times> handler" where
  "handler_Get sig h = (hookMap h sig, h)"

text \<open>
  \<open>Gets\<close> names the hook it makes after \<open>sig.String()\<close>, which the standard library
  defines; the model takes that function as \<open>sigString\<close>.
\<close>

definition replaceSpaces :: "string \<Rightarrow> string" where
  "replaceSpaces s = map (\<lambda>c. if c = CHR '' '' then CHR ''_'' else c) s"

definition handler_Gets :: "(signal \<Rightarrow> string) \<Rightarrow> signal \<Rightarrow> handler \<Rightarrow> Hook option \<times> handler" where
  "handler_Gets sigString sig h =
     (case hookMap h sig of
        Some hook \<Rightarrow> (Some hook, h)
      | None \<Rightarrow>
          (let (hk, h1) = allocHook (''signal.'' @ replaceSpaces (sigString sig))
                            (''Handle '' @ sigString sig @ '' signal'') h;
               (err, h2) = handler_set sig (Some hk) h1
           in (hookMap h2 sig, h2)))"











section \<open>Vocabulary of the properties\<close>

text \<open>
  A hook as a program can have it: made by \<open>NewHook\<close>, then any sequence of registration
  calls, each of which may succeed or fail.
\<close>

datatype registration = AddFunction Function | AddNotify Notify

fun register :: "registration \<Rightarrow> hook \<Rightarrow> hook" where
  "register (AddFunction function) h = snd (hook_Function function h)"
| "register (AddNotify notify) h = snd (hook_Notify notify h)"

fun registerAll :: "registration list \<Rightarrow> hook \<Rightarrow> hook" where
  "registerAll [] h = h"
| "registerAll (r # rs) h = registerAll rs (register r h)"




text \<open>
  The shape registration gives a map: no key twice, and every entry stored under its own
  name.
\<close>

definition keyed :: "('a \<Rightarrow> string) \<Rightarrow> 'a gomap \<Rightarrow> bool" where
  "keyed nm m = (distinct (map fst m) \<and> (\<forall>kv\<in>set m. nm (snd kv) = fst kv))"

text \<open>
  What holds of a hook that has been registered with and not yet executed: both maps are
  keyed by name, no name is empty, no body and no channel is \<open>nil\<close>, both order slices
  are still empty, and the dirty flag is set as soon as there is an entry.
\<close>

definition registered_hook :: "hook \<Rightarrow> bool" where
  "registered_hook h =
     (keyed f_Name (functionMap h) \<and> keyed n_Name (notifies h)
      \<and> (\<forall>kv\<in>set (functionMap h). Func (snd kv) \<noteq> None)
      \<and> (\<forall>kv\<in>set (notifies h). Chan (snd kv) \<noteq> None)
      \<and> '''' \<notin> fst ` set (functionMap h) \<and> '''' \<notin> fst ` set (notifies h)
      \<and> functionOrder h = [] \<and> notifyOrder h = []
      \<and> (doReorder h \<longleftrightarrow> functionMap h \<noteq> [] \<or> notifies h \<noteq> []))"

section \<open>Properties of the hook\<close>

subsection \<open>Registration and lookup\<close>

text \<open>
  C4. Registration of a \<open>Function\<close> (and likewise of a \<open>Notify\<close>) checks, in this order:
  an empty \<open>Name\<close> fails with \<open>ErrFunctionNameEmpty\<close> (\<open>ErrNotifyNameEmpty\<close>); otherwise a
  \<open>nil\<close> body (channel) fails with \<open>ErrFuncNil\<close> (\<open>ErrChanNil\<close>); otherwise a name that
  is already in the map, with \<open>Overwrite\<close> false, fails with \<open>ErrFunctionExists\<close>
  (\<open>ErrNotifyExists\<close>) carrying the name; otherwise the call succeeds, the map holds the
  entry under its name where it held nothing or the old entry, and the dirty flag is
  set. A failing call returns the hook as it was.
\<close>
theorem registration_results:
  "(f_Name f = '''' \<longrightarrow> hook_Function f h = (Some ErrFunctionNameEmpty, h))
   \<and> (f_Name f \<noteq> '''' \<and> Func f = None \<longrightarrow> hook_Function f h = (Some ErrFuncNil, h))
   \<and> (f_Name f \<noteq> '''' \<and> Func f \<noteq> None \<and> map_of (functionMap h) (f_Name f) \<noteq> None
        \<and> \<not> f_Overwrite f \<longrightarrow>
        hook_Function f h = (Some (ErrFunctionExists (f_Name f)), h))
   \<and> (f_Name f \<noteq> '''' \<and> Func f \<noteq> None
        \<and> (map_of (functionMap h) (f_Name f) = None \<or> f_Overwrite f) \<longrightarrow>
        hook_Function f h =
          (None, h\<lparr>doReorder := True,
                   functionMap := AList.update (f_Name f) f (functionMap h)\<rparr>)
        \<and> map_of (functionMap (snd (hook_Function f h))) =
            (map_of (functionMap h))(f_Name f \<mapsto> f)
        \<and> doReorder (snd (hook_Function f h)))
   \<and> (fst (hook_Function f h) \<noteq> None \<longrightarrow> snd (hook_Function f h) = h)
   \<and> (n_Name n = '''' \<longrightarrow> hook_Notify n h = (Some ErrNotifyNameEmpty, h))
   \<and> (n_Name n \<noteq> '''' \<and> Chan n = None \<longrightarrow> hook_Notify n h = (Some ErrChanNil, h))
   \<and> (n_Name n \<noteq> '''' \<and> Chan n \<noteq> None \<and> map_of (notifies h) (n_Name n) \<noteq> None
        \<and> \<not> n_Overwrite n \<longrightarrow>
        hook_Notify n h = (Some (ErrNotifyExists (n_Name n)), h))
   \<and> (n_Name n \<noteq> '''' \<and> Chan n \<noteq> None
        \<and> (map_of (notifies h) (n_Name n) = None \<or> n_Overwrite n) \<longrightarrow>
        hook_Notify n h =
          (None, h\<lparr>doReorder := True,
                   notifies := AList.update (n_Name n) n (notifies h)\<rparr>)
        \<and> map_of (notifies (snd (hook_Notify n h))) = (map_of (notifies h))(n_Name n \<mapsto> n)
        \<and> doReorder (snd (hook_Notify n h)))
   \<and> (fst (hook_Notify n h) \<noteq> None \<longrightarrow> snd (hook_Notify n h) = h)"
  by (auto simp: hook_Function_def hook_Notify_def update_conv')

theorem registration_results_witness:
  "hook_Function \<lparr>Func = Some 0, f_Name = '''', f_Desc = '''', f_Overwrite = False,
                  f_Order = 1, Concurrent = False\<rparr> (NewHook ''H'' '''')
     = (Some ErrFunctionNameEmpty, NewHook ''H'' '''')
   \<and> hook_Function \<lparr>Func = None, f_Name = ''a'', f_Desc = '''', f_Overwrite = False,
                  f_Order = 1, Concurrent = False\<rparr> (NewHook ''H'' '''')
     = (Some ErrFuncNil, NewHook ''H'' '''')
   \<and> hook_Function \<lparr>Func = Some 0, f_Name = ''a'', f_Desc = '''', f_Overwrite = False,
                  f_Order = 1, Concurrent = False\<rparr> (NewHook ''H'' '''')
     = (None, (NewHook ''H'' '''')
          \<lparr>doReorder := True,
            functionMap := [(''a'', \<lparr>Func = Some 0, f_Name = ''a'', f_Desc = '''',
                                     f_Overwrite = False, f_Order = 1, Concurrent = False\<rparr>)]\<rparr>)
   \<and> hook_Function \<lparr>Func = Some 1, f_Name = ''a'', f_Desc = '''', f_Overwrite = False,
                  f_Order = 2, Concurrent = False\<rparr>
       (snd (hook_Function \<lparr>Func = Some 0, f_Name = ''a'', f_Desc = '''', f_Overwrite = False,
                  f_Order = 1, Concurrent = False\<rparr> (NewHook ''H'' '''')))
     = (Some (ErrFunctionExists ''a''),
        snd (hook_Function \<lparr>Func = Some 0, f_Name = ''a'', f_Desc = '''', f_Overwrite = False,
                  f_Order = 1, Concurrent = False\<rparr> (NewHook ''H'' '''')))
   \<and> hook_Function \<lparr>Func = Some 1, f_Name = ''a'', f_Desc = '''', f_Overwrite = True,
                  f_Order = 2, Concurrent = False\<rparr>
       (snd (hook_Function \<lparr>Func = Some 0, f_Name = ''a'', f_Desc = '''', f_Overwrite = False,
                  f_Order = 1, Concurrent = False\<rparr> (NewHook ''H'' '''')))
     = (None, (NewHook ''H'' '''')
          \<lparr>doReorder := True,
            functionMap := [(''a'', \<lparr>Func = Some 1, f_Name = ''a'', f_Desc = '''',
                                     f_Overwrite = True, f_Order = 2, Concurrent = False\<rparr>)]\<rparr>)
   \<and> hook_Notify \<lparr>Chan = Some 0, DoneChan = None, n_Name = '''', n_Desc = '''',
                  n_Overwrite = False, n_Order = 1, NonBlocking = False\<rparr> (NewHook ''H'' '''')
     = (Some ErrNotifyNameEmpty, NewHook ''H'' '''')
   \<and> hook_Notify \<lparr>Chan = None, DoneChan = None, n_Name = ''n'', n_Desc = '''',
                  n_Overwrite = False, n_Order = 1, NonBlocking = False\<rparr> (NewHook ''H'' '''')
     = (Some ErrChanNil, NewHook ''H'' '''')
   \<and> hook_Notify \<lparr>Chan = Some 0, DoneChan = None, n_Name = ''n'', n_Desc = '''',
                  n_Overwrite = False, n_Order = 1, NonBlocking = False\<rparr> (NewHook ''H'' '''')
     = (None, (NewHook ''H'' '''')
          \<lparr>doReorder := True,
            notifies := [(''n'', \<lparr>Chan = Some 0, DoneChan = None, n_Name = ''n'', n_Desc = '''',
                                  n_Overwrite = False, n_Order = 1, NonBlocking = False\<rparr>)]\<rparr>)
   \<and> hook_Notify \<lparr>Chan = Some 1, DoneChan = None, n_Name = ''n'', n_Desc = '''',
                  n_Overwrite = False, n_Order = 2, NonBlocking = False\<rparr>
       (snd (hook_Notify \<lparr>Chan = Some 0, DoneChan = None, n_Name = ''n'', n_Desc = '''',
                  n_Overwrite = False, n_Order = 1, NonBlocking = False\<rparr> (NewHook ''H'' '''')))
     = (Some (ErrNotifyExists ''n''),
        snd (hook_Notify \<lparr>Chan = Some 0, DoneChan = None, n_Name = ''n'', n_Desc = '''',
                  n_Overwrite = False, n_Order = 1, NonBlocking = False\<rparr> (NewHook ''H'' '''')))"
  using registration_results
          [where h = "NewHook ''H'' ''''"
             and f = "\<lparr>Func = Some 0, f_Name = '''', f_Desc = '''', f_Overwrite = False,
                        f_Order = 1, Concurrent = False\<rparr>"
             and n = "\<lparr>Chan = Some 0, DoneChan = None, n_Name = '''', n_Desc = '''',
                        n_Overwrite = False, n_Order = 1, NonBlocking = False\<rparr>"]
        registration_results
          [where h = "NewHook ''H'' ''''"
             and f = "\<lparr>Func = None, f_Name = ''a'', f_Desc = '''', f_Overwrite = False,
                        f_Order = 1, Concurrent = False\<rparr>"
             and n = "\<lparr>Chan = None, DoneChan = None, n_Name = ''n'', n_Desc = '''',
                        n_Overwrite = False, n_Order = 1, NonBlocking = False\<rparr>"]
        registration_results
          [where h = "NewHook ''H'' ''''"
             and f = "\<lparr>Func = Some 0, f_Name = ''a'', f_Desc = '''', f_Overwrite = False,
                        f_Order = 1, Concurrent = False\<rparr>"
             and n = "\<lparr>Chan = Some 0, DoneChan = None, n_Name = ''n'', n_Desc = '''',
                        n_Overwrite = False, n_Order = 1, NonBlocking = False\<rparr>"]
        registration_results
          [where h = "snd (hook_Function \<lparr>Func = Some 0, f_Name = ''a'', f_Desc = '''',
                        f_Overwrite = False, f_Order = 1, Concurrent = False\<rparr>
                        (NewHook ''H'' ''''))"
             and f = "\<lparr>Func = Some 1, f_Name = ''a'', f_Desc = '''', f_Overwrite = False,
                        f_Order = 2, Concurrent = False\<rparr>"
             and n = "\<lparr>Chan = Some 0, DoneChan = None, n_Name = ''n'', n_Desc = '''',
                        n_Overwrite = False, n_Order = 1, NonBlocking = False\<rparr>"]
        registration_results
          [where h = "snd (hook_Function \<lparr>Func = Some 0, f_Name = ''a'', f_Desc = '''',
                        f_Overwrite = False, f_Order = 1, Concurrent = False\<rparr>
                        (NewHook ''H'' ''''))"
             and f = "\<lparr>Func = Some 1, f_Name = ''a'', f_Desc = '''', f_Overwrite = True,
                        f_Order = 2, Concurrent = False\<rparr>"
             and n = "\<lparr>Chan = Some 0, DoneChan = None, n_Name = ''n'', n_Desc = '''',
                        n_Overwrite = False, n_Order = 1, NonBlocking = False\<rparr>"]
        registration_results
          [where h = "snd (hook_Notify \<lparr>Chan = Some 0, DoneChan = None, n_Name = ''n'',
                        n_Desc = '''', n_Overwrite = False, n_Order = 1, NonBlocking = False\<rparr>
                        (NewHook ''H'' ''''))"
             and f = "\<lparr>Func = Some 1, f_Name = ''a'', f_Desc = '''', f_Overwrite = False,
                        f_Order = 2, Concurrent = False\<rparr>"
             and n = "\<lparr>Chan = Some 1, DoneChan = None, n_Name = ''n'', n_Desc = '''',
                        n_Overwrite = False, n_Order = 2, NonBlocking = False\<rparr>"]
  by (simp add: NewHook_def hook_Function_def hook_Notify_def)

text \<open>
  C5. After a successful registration of a \<open>Function\<close> (\<open>Notify\<close>) the lookup of its name
  returns exactly that entry, and a registration under another name leaves the lookup of
  this name as it was. \<open>GetFunction\<close> and \<open>GetNotify\<close> return the hook unchanged, have no
  error in their result, and return \<open>nil\<close> for a name that is not registered.
\<close>
theorem lookup_round_trip:
  "(fst (hook_Function f h) = None \<longrightarrow>
      fst (hook_GetFunction (f_Name f) (snd (hook_Function f h))) = Some f)
   \<and> (fst (hook_Notify n h) = None \<longrightarrow>
      fst (hook_GetNotify (n_Name n) (snd (hook_Notify n h))) = Some n)
   \<and> (f_Name f \<noteq> nm \<longrightarrow>
      fst (hook_GetFunction nm (snd (hook_Function f h))) = fst (hook_GetFunction nm h))
   \<and> (n_Name n \<noteq> nm \<longrightarrow>
      fst (hook_GetNotify nm (snd (hook_Notify n h))) = fst (hook_GetNotify nm h))
   \<and> snd (hook_GetFunction nm h) = h
   \<and> snd (hook_GetNotify nm h) = h
   \<and> (nm \<notin> fst ` set (functionMap h) \<longrightarrow> fst (hook_GetFunction nm h) = None)
   \<and> (nm \<notin> fst ` set (notifies h) \<longrightarrow> fst (hook_GetNotify nm h) = None)"
  by (auto simp: hook_Function_def hook_Notify_def hook_GetFunction_def hook_GetNotify_def
        update_conv' map_of_eq_None_iff)

theorem lookup_round_trip_witness:
  "fst (hook_Function \<lparr>Func = Some 0, f_Name = ''a'', f_Desc = '''', f_Overwrite = False,
                       f_Order = 1, Concurrent = False\<rparr> (NewHook ''H'' '''')) = None
   \<and> hook_GetFunction ''a''
       (snd (hook_Function \<lparr>Func = Some 0, f_Name = ''a'', f_Desc = '''', f_Overwrite = False,
                       f_Order = 1, Concurrent = False\<rparr> (NewHook ''H'' '''')))
     = (Some \<lparr>Func = Some 0, f_Name = ''a'', f_Desc = '''', f_Overwrite = False,
              f_Order = 1, Concurrent = False\<rparr>,
        snd (hook_Function \<lparr>Func = Some 0, f_Name = ''a'', f_Desc = '''', f_Overwrite = False,
                       f_Order = 1, Concurrent = False\<rparr> (NewHook ''H'' '''')))
   \<and> hook_GetFunction ''b''
       (snd (hook_Function \<lparr>Func = Some 0, f_Name = ''a'', f_Desc = '''', f_Overwrite = False,
                       f_Order = 1, Concurrent = False\<rparr> (NewHook ''H'' '''')))
     = (None,
        snd (hook_Function \<lparr>Func = Some 0, f_Name = ''a'', f_Desc = '''', f_Overwrite = False,
                       f_Order = 1, Concurrent = False\<rparr> (NewHook ''H'' '''')))
   \<and> fst (hook_Notify \<lparr>Chan = Some 0, DoneChan = None, n_Name = ''n'', n_Desc = '''',
                      n_Overwrite = False, n_Order = 1, NonBlocking = False\<rparr>
             (NewHook ''H'' '''')) = None
   \<and> hook_GetNotify ''n''
       (snd (hook_Notify \<lparr>Chan = Some 0, DoneChan = None, n_Name = ''n'', n_Desc = '''',
                      n_Overwrite = False, n_Order = 1, NonBlocking = False\<rparr>
             (NewHook ''H'' '''')))
     = (Some \<lparr>Chan = Some 0, DoneChan = None, n_Name = ''n'', n_Desc = '''',
              n_Overwrite = False, n_Order = 1, NonBlocking = False\<rparr>,
        snd (hook_Notify \<lparr>Chan = Some 0, DoneChan = None, n_Name = ''n'', n_Desc = '''',
                      n_Overwrite = False, n_Order = 1, NonBlocking = False\<rparr>
             (NewHook ''H'' '''')))"
  using lookup_round_trip
          [where h = "NewHook ''H'' ''''" and nm = "''a''"
             and f = "\<lparr>Func = Some 0, f_Name = ''a'', f_Desc = '''', f_Overwrite = False,
                        f_Order = 1, Concurrent = False\<rparr>"
             and n = "\<lparr>Chan = Some 0, DoneChan = None, n_Name = ''n'', n_Desc = '''',
                        n_Overwrite = False, n_Order = 1, NonBlocking = False\<rparr>"]
        lookup_round_trip
          [where h = "snd (hook_Function \<lparr>Func = Some 0, f_Name = ''a'', f_Desc = '''',
                        f_Overwrite = False, f_Order = 1, Concurrent = False\<rparr>
                        (NewHook ''H'' ''''))"
             and nm = "''b''"
             and f = "\<lparr>Func = Some 0, f_Name = ''a'', f_Desc = '''', f_Overwrite = False,
                        f_Order = 1, Concurrent = False\<rparr>"
             and n = "\<lparr>Chan = Some 0, DoneChan = None, n_Name = ''n'', n_Desc = '''',
                        n_Overwrite = False, n_Order = 1, NonBlocking = False\<rparr>"]
  by (simp add: NewHook_def hook_Function_def hook_Notify_def hook_GetFunction_def
        hook_GetNotify_def)

subsection \<open>Ordering and execution\<close>



lemma keyed_delete: "keyed nm m \<Longrightarrow> keyed nm (AList.delete k m)"
proof -
  assume k: "keyed nm m"
  have "set (AList.delete k m) \<subseteq> set m" by (auto simp: AList.delete_eq)
  with k show ?thesis unfolding keyed_def using distinct_delete [of m k] by blast
qed




lemma scanNotifies_result:
  "scanNotifies ns (lo, nm) = (lo', nm') \<Longrightarrow>
     (\<forall>n\<in>set ns. lo' \<le> n_Order n) \<and> lo' \<le> lo
     \<and> ((\<exists>n\<in>set ns. n_Order n < lo) \<longrightarrow>
            (\<exists>n\<in>set ns. n_Order n = lo' \<and> n_Name n = nm'))
     \<and> (\<not> (\<exists>n\<in>set ns. n_Order n < lo) \<longrightarrow> (lo', nm') = (lo, nm))"
proof (induction ns arbitrary: lo nm)
  case Nil
  then show ?case by simp
next
  case (Cons n ns)
  show ?case
  proof (cases "n_Order n < lo")
    case True
    with Cons.prems have "scanNotifies ns (n_Order n, n_Name n) = (lo', nm')" by simp
    from Cons.IH [OF this] True show ?thesis by (auto split: if_splits)
  next
    case False
    with Cons.prems have "scanNotifies ns (lo, nm) = (lo', nm')" by simp
    from Cons.IH [OF this] False show ?thesis by (auto split: if_splits)
  qed
qed

lemma traversal_values: "valid_traversal t \<Longrightarrow> set (map snd (t m)) = snd ` set m"
proof -
  assume "valid_traversal t"
  then have "mset (t m) = mset m" by (simp add: valid_traversal_def)
  then have "set (t m) = set m" by (rule mset_eq_setD)
  then show ?thesis by simp
qed
























lemma id_traversal: "valid_traversal id"
  by (simp add: valid_traversal_def)

text \<open>
  \<open>reorder\<close> never writes the dirty flag, and both loops only append to the slice they
  are given. So a reordering that starts with a nonempty order slice appends behind
  \<open>nil\<close>s and panics when it puts the entries back: a hook with an entry runs \<open>Exec\<close> to
  the end at most once.
\<close>

lemma reorder_keeps_flag:
  "hook_reorder fuel travF travN h = Some (Inr h') \<Longrightarrow> doReorder h' = doReorder h"
  by (auto simp: hook_reorder_def split: if_splits option.splits sum.splits prod.splits)

lemma orderFunctions_extends:
  "orderFunctions fuel trav m order = Some (m', order') \<Longrightarrow>
     (\<exists>rest. order' = order @ rest) \<and> (m \<noteq> [] \<longrightarrow> order' \<noteq> order)"
proof (induction fuel arbitrary: m order)
  case 0
  then show ?case by (simp split: if_splits)
next
  case (Suc fuel)
  show ?case
  proof (cases "m = []")
    case True
    with Suc.prems show ?thesis by simp
  next
    case False
    obtain lo nm where scan: "scanFunctions (map snd (trav m)) (65535, '''') = (lo, nm)"
      by (cases "scanFunctions (map snd (trav m)) (65535, '''')")
    with False Suc.prems have
      "orderFunctions fuel trav (AList.delete nm m) (order @ [map_of m nm]) = Some (m', order')"
      by simp
    from Suc.IH [OF this] show ?thesis by auto
  qed
qed

lemma orderNotifies_extends:
  "orderNotifies fuel trav m order = Some (m', order') \<Longrightarrow>
     (\<exists>rest. order' = order @ rest) \<and> (m \<noteq> [] \<longrightarrow> order' \<noteq> order)"
proof (induction fuel arbitrary: m order)
  case 0
  then show ?case by (simp split: if_splits)
next
  case (Suc fuel)
  show ?case
  proof (cases "m = []")
    case True
    with Suc.prems show ?thesis by simp
  next
    case False
    obtain lo nm where scan: "scanNotifies (map snd (trav m)) (65535, '''') = (lo, nm)"
      by (cases "scanNotifies (map snd (trav m)) (65535, '''')")
    with False Suc.prems have
      "orderNotifies fuel trav (AList.delete nm m) (order @ [map_of m nm]) = Some (m', order')"
      by simp
    from Suc.IH [OF this] show ?thesis by auto
  qed
qed

lemma restoreFunctions_cleared:
  "xs \<noteq> [] \<Longrightarrow> restoreFunctions (clear_slice xs @ rest) m = Inl NilDereference"
  by (cases xs) (simp_all add: clear_slice_def)

lemma restoreNotifies_cleared:
  "xs \<noteq> [] \<Longrightarrow> restoreNotifies (clear_slice xs @ rest) m = Inl NilDereference"
  by (cases xs) (simp_all add: clear_slice_def)

lemma panic_only: "(p :: panic) = NilDereference"
  by (cases p)

lemma reorder_again_fails:
  assumes "doReorder h" and "functionOrder h \<noteq> [] \<or> notifyOrder h \<noteq> []"
  shows "hook_reorder fuel travF travN h = None
         \<or> hook_reorder fuel travF travN h = Some (Inl NilDereference)"
proof (cases "orderFunctions fuel travF (functionMap h) (clear_slice (functionOrder h))")
  case None
  with assms(1) show ?thesis by (simp add: hook_reorder_def)
next
  case (Some r)
  obtain fm fo where r: "r = (fm, fo)" by (cases r)
  from orderFunctions_extends [OF Some [unfolded r]]
  obtain rest where fo: "fo = clear_slice (functionOrder h) @ rest" by blast
  show ?thesis
  proof (cases "orderNotifies fuel travN (notifies h) (clear_slice (notifyOrder h))")
    case None
    with assms(1) Some r show ?thesis by (simp add: hook_reorder_def)
  next
    case (Some r')
    obtain nm no where r': "r' = (nm, no)" by (cases r')
    from orderNotifies_extends [OF Some [unfolded r']]
    obtain rest' where no: "no = clear_slice (notifyOrder h) @ rest'" by blast
    show ?thesis
    proof (cases "functionOrder h = []")
      case False
      then have "restoreFunctions fo fm = Inl NilDereference"
        unfolding fo by (rule restoreFunctions_cleared)
      with assms(1) \<open>orderFunctions fuel travF (functionMap h) (clear_slice (functionOrder h)) = Some r\<close>
        r Some r' show ?thesis
        by (simp add: hook_reorder_def)
    next
      case True
      with assms(2) have "notifyOrder h \<noteq> []" by simp
      then have "restoreNotifies no nm = Inl NilDereference"
        unfolding no by (rule restoreNotifies_cleared)
      with assms(1) \<open>orderFunctions fuel travF (functionMap h) (clear_slice (functionOrder h)) = Some r\<close>
        r Some r' show ?thesis
        by (cases "restoreFunctions fo fm") (auto simp: hook_reorder_def panic_only)
    qed
  qed
qed

lemma reorder_fills_order:
  assumes "hook_reorder fuel travF travN h = Some (Inr h')" and "doReorder h"
    and "functionMap h \<noteq> [] \<or> notifies h \<noteq> []"
  shows "functionOrder h' \<noteq> [] \<or> notifyOrder h' \<noteq> []"
proof -
  from assms(1,2) obtain fm fo nm no where
    f: "orderFunctions fuel travF (functionMap h) (clear_slice (functionOrder h)) = Some (fm, fo)"
    and n: "orderNotifies fuel travN (notifies h) (clear_slice (notifyOrder h)) = Some (nm, no)"
    and h': "functionOrder h' = fo" "notifyOrder h' = no"
    by (auto simp: hook_reorder_def split: option.splits sum.splits prod.splits)
  from orderFunctions_extends [OF f] orderNotifies_extends [OF n] assms(3) h'
  show ?thesis by auto
qed

lemma Exec_second_run_fails:
  assumes "hook_Exec fuel travF travN ctx h = Some (Inr (h', evs))"
    and "doReorder h" and "functionMap h \<noteq> [] \<or> notifies h \<noteq> []"
  shows "hook_Exec fuel' travF' travN' ctx' h' = None
         \<or> hook_Exec fuel' travF' travN' ctx' h' = Some (Inl NilDereference)"
proof -
  from assms(1) have r: "hook_reorder fuel travF travN h = Some (Inr h')"
    by (auto simp: hook_Exec_def split: option.splits sum.splits)
  from reorder_keeps_flag [OF r] assms(2) have "doReorder h'" by simp
  from reorder_again_fails [OF this reorder_fills_order [OF r assms(2,3)], of fuel' travF' travN']
  show ?thesis by (auto simp: hook_Exec_def)
qed

text \<open>
  A notify of order 65535 is never picked by the scan with \<open><\<close>: once the smaller ones
  are gone every round leaves the map as it is.
\<close>

lemma orderNotifies_max_diverges:
  assumes t: "valid_traversal trav"
  shows "keyed n_Name m \<Longrightarrow> '''' \<notin> fst ` set m \<Longrightarrow> \<exists>n\<in>snd ` set m. n_Order n = 65535 \<Longrightarrow>
     orderNotifies fuel trav m order = None"
proof (induction fuel arbitrary: m order)
  case 0
  then show ?case by auto
next
  case (Suc fuel)
  from Suc.prems(3) obtain k x where x: "(k, x) \<in> set m" "n_Order x = 65535" by auto
  then have ne: "m \<noteq> []" by auto
  obtain lo nm where scan: "scanNotifies (map snd (trav m)) (65535, '''') = (lo, nm)"
    by (cases "scanNotifies (map snd (trav m)) (65535, '''')")
  have vals: "set (map snd (trav m)) = snd ` set m"
    by (rule traversal_values [OF t])
  from scanNotifies_result [OF scan] have
    pick: "(\<exists>n\<in>snd ` set m. n_Order n < 65535) \<longrightarrow>
             (\<exists>n\<in>snd ` set m. n_Order n = lo \<and> n_Name n = nm)" and
    stay: "\<not> (\<exists>n\<in>snd ` set m. n_Order n < 65535) \<longrightarrow> (lo, nm) = (65535, '''')" and
    le: "lo \<le> 65535"
    unfolding vals by blast+
  have kept: "(k, x) \<in> set (AList.delete nm m)"
  proof (cases "\<exists>n\<in>snd ` set m. n_Order n < 65535")
    case True
    with pick obtain n where n: "n \<in> snd ` set m" "n_Order n = lo" "n_Name n = nm" by blast
    from True scanNotifies_result [OF scan]
    have "lo < 65535" unfolding vals by (metis order_le_less_trans)
    with n(2) x(2) have "n \<noteq> x" by auto
    from n(1,3) Suc.prems(1) have "(nm, n) \<in> set m" by (auto simp: keyed_def)
    with Suc.prems(1) x(1) \<open>n \<noteq> x\<close> have "k \<noteq> nm"
      by (auto simp: keyed_def dest: eq_key_imp_eq_value)
    with x(1) show ?thesis by (auto simp: AList.delete_eq)
  next
    case False
    with stay have "nm = ''''" by auto
    with Suc.prems(2) have "AList.delete nm m = m" by simp
    with x(1) show ?thesis by simp
  qed
  have "orderNotifies fuel trav (AList.delete nm m) (order @ [map_of m nm]) = None"
  proof (rule Suc.IH)
    show "keyed n_Name (AList.delete nm m)" by (rule keyed_delete [OF Suc.prems(1)])
    show "'''' \<notin> fst ` set (AList.delete nm m)"
      using Suc.prems(2) dom_delete_subset [of nm m] by blast
    show "\<exists>n\<in>snd ` set (AList.delete nm m). n_Order n = 65535"
      using kept x(2) by force
  qed
  with ne scan show ?case by simp
qed

lemma reorder_max_order_diverges:
  assumes "valid_traversal travN" and "registered_hook h"
    and "\<exists>n\<in>snd ` set (notifies h). n_Order n = 65535"
  shows "hook_reorder fuel travF travN h = None"
proof -
  from assms(2,3) have dirty: "doReorder h"
    by (auto simp: registered_hook_def)
  from assms(2) have "keyed n_Name (notifies h)" "'''' \<notin> fst ` set (notifies h)"
    by (simp_all add: registered_hook_def)
  from orderNotifies_max_diverges [OF assms(1) this assms(3)]
  have "orderNotifies fuel travN (notifies h) (clear_slice (notifyOrder h)) = None" .
  with dirty show ?thesis
    by (simp add: hook_reorder_def split: option.splits prod.splits)
qed




text \<open>
  The same two registrations with the map visited in the order \<open>B\<close>, \<open>A\<close>: now \<open>A\<close> is
  called first. The order among equal priorities is the traversal's, not the program's.
\<close>

lemma rev_traversal: "valid_traversal rev"
  by (simp add: valid_traversal_def)

lemma tie_break_other_traversal:
  "hook_Exec (Suc (Suc 0)) rev rev None
     (registerAll
        [AddFunction \<lparr>Func = Some 0, f_Name = ''A'', f_Desc = '''', f_Overwrite = False,
                      f_Order = 5, Concurrent = False\<rparr>,
         AddFunction \<lparr>Func = Some 1, f_Name = ''B'', f_Desc = '''', f_Overwrite = False,
                      f_Order = 5, Concurrent = False\<rparr>]
        (NewHook ''H'' ''''))
   = Some (Inr
       (\<lparr>name = ''H'', desc = '''',
         functionMap =
           [(''A'', \<lparr>Func = Some 0, f_Name = ''A'', f_Desc = '''', f_Overwrite = False,
                      f_Order = 5, Concurrent = False\<rparr>),
            (''B'', \<lparr>Func = Some 1, f_Name = ''B'', f_Desc = '''', f_Overwrite = False,
                      f_Order = 5, Concurrent = False\<rparr>)],
         notifies = [], doReorder = True,
         functionOrder =
           [Some \<lparr>Func = Some 0, f_Name = ''A'', f_Desc = '''', f_Overwrite = False,
                   f_Order = 5, Concurrent = False\<rparr>,
            Some \<lparr>Func = Some 1, f_Name = ''B'', f_Desc = '''', f_Overwrite = False,
                   f_Order = 5, Concurrent = False\<rparr>],
         notifyOrder = []\<rparr>,
        [Call \<lparr>Func = Some 0, f_Name = ''A'', f_Desc = '''', f_Overwrite = False,
                f_Order = 5, Concurrent = False\<rparr> None,
         Call \<lparr>Func = Some 1, f_Name = ''B'', f_Desc = '''', f_Overwrite = False,
                f_Order = 5, Concurrent = False\<rparr> None]))"
  by (simp add: NewHook_def hook_Function_def hook_Exec_def hook_reorder_def clear_slice_def)

text \<open>
  C3 fails on the code: with one \<open>Notify\<close> of \<open>Order\<close> 65535 registered, the loop that
  orders the notifies compares with \<open><\<close> against 65535, picks no entry, deletes the key
  \<open>""\<close> and goes round again. However much fuel it is given, the reordering at the
  start of \<open>Exec\<close> does not return.
\<close>
theorem max_order_notify_never_ordered:
  "\<forall>fuel. hook_Exec fuel id id None
     (registerAll
        [AddNotify \<lparr>Chan = Some 0, DoneChan = None, n_Name = ''n'', n_Desc = '''',
                    n_Overwrite = False, n_Order = 65535, NonBlocking = True\<rparr>]
        (NewHook ''H'' '''')) = None"
proof
  fix fuel
  have "orderNotifies fuel id
          [(''n'', \<lparr>Chan = Some 0, DoneChan = None, n_Name = ''n'', n_Desc = '''',
                     n_Overwrite = False, n_Order = 65535, NonBlocking = True\<rparr>)] [] = None"
    by (rule orderNotifies_max_diverges [OF id_traversal]) (simp_all add: keyed_def)
  moreover have "orderFunctions fuel id [] [] = Some ([], [])"
    by (cases fuel) simp_all
  ultimately show "hook_Exec fuel id id None
     (registerAll
        [AddNotify \<lparr>Chan = Some 0, DoneChan = None, n_Name = ''n'', n_Desc = '''',
                    n_Overwrite = False, n_Order = 65535, NonBlocking = True\<rparr>]
        (NewHook ''H'' '''')) = None"
    by (simp add: NewHook_def hook_Notify_def hook_Exec_def hook_reorder_def clear_slice_def)
qed

text \<open>
  C9 fails on the code: with one \<open>Function\<close> registered, the first \<open>Exec\<close> returns a hook
  whose dirty flag is still set. On that hook the reordering runs again: \<open>clear\<close> leaves a
  \<open>nil\<close> in \<open>functionOrder\<close>, the entry is appended behind it, and the loop that restores
  the map panics on the \<open>nil\<close>. So does the second \<open>Exec\<close>.
\<close>
theorem dirty_flag_stays_set:
  "hook_Exec (Suc 0) id id None
     (registerAll
        [AddFunction \<lparr>Func = Some 0, f_Name = ''a'', f_Desc = '''', f_Overwrite = False,
                      f_Order = 1, Concurrent = False\<rparr>]
        (NewHook ''H'' ''''))
   = Some (Inr
       (\<lparr>name = ''H'', desc = '''',
         functionMap =
           [(''a'', \<lparr>Func = Some 0, f_Name = ''a'', f_Desc = '''', f_Overwrite = False,
                      f_Order = 1, Concurrent = False\<rparr>)],
         notifies = [], doReorder = True,
         functionOrder =
           [Some \<lparr>Func = Some 0, f_Name = ''a'', f_Desc = '''', f_Overwrite = False,
                   f_Order = 1, Concurrent = False\<rparr>],
         notifyOrder = []\<rparr>,
        [Call \<lparr>Func = Some 0, f_Name = ''a'', f_Desc = '''', f_Overwrite = False,
                f_Order = 1, Concurrent = False\<rparr> None]))
   \<and> hook_reorder (Suc 0) id id
       \<lparr>name = ''H'', desc = '''',
         functionMap =
           [(''a'', \<lparr>Func = Some 0, f_Name = ''a'', f_Desc = '''', f_Overwrite = False,
                      f_Order = 1, Concurrent = False\<rparr>)],
         notifies = [], doReorder = True,
         functionOrder =
           [Some \<lparr>Func = Some 0, f_Name = ''a'', f_Desc = '''', f_Overwrite = False,
                   f_Order = 1, Concurrent = False\<rparr>],
         notifyOrder = []\<rparr>
     = Some (Inl NilDereference)
   \<and> hook_Exec (Suc 0) id id None
       \<lparr>name = ''H'', desc = '''',
         functionMap =
           [(''a'', \<lparr>Func = Some 0, f_Name = ''a'', f_Desc = '''', f_Overwrite = False,
                      f_Order = 1, Concurrent = False\<rparr>)],
         notifies = [], doReorder = True,
         functionOrder =
           [Some \<lparr>Func = Some 0, f_Name = ''a'', f_Desc = '''', f_Overwrite = False,
                   f_Order = 1, Concurrent = False\<rparr>],
         notifyOrder = []\<rparr>
     = Some (Inl NilDereference)"
  by (simp add: NewHook_def hook_Function_def hook_Exec_def hook_reorder_def clear_slice_def)

section \<open>Properties of the handler\<close>

subsection \<open>The exit latch\<close>










subsection \<open>Registration with the handler\<close>

text \<open>
  C6. \<open>SetExit\<close> fails with \<open>ErrHookNil\<close> on a \<open>nil\<close> hook and, for a hook that is not
  \<open>nil\<close>, with \<open>ErrExitExists\<close> when an exit hook is set; otherwise it stores the hook and
  starts capturing, in the order interrupt, terminate, quit, each of the three signals
  not yet captured. \<open>Set\<close> fails with \<open>ErrHookNil\<close> on a \<open>nil\<close> hook and, for a hook that
  is not \<open>nil\<close>, with \<open>ErrSignalExists\<close> when the signal has a hook; otherwise it stores
  the mapping and starts capturing the signal if it is not yet captured. A failing call
  returns the handler as it was.
\<close>
theorem SetExit_Set_results:
  "handler_SetExit None h = (Some ErrHookNil, h)
   \<and> (exitHook h \<noteq> None \<longrightarrow> handler_SetExit (Some hk) h = (Some ErrExitExists, h))
   \<and> (exitHook h = None \<longrightarrow>
        handler_SetExit (Some hk) h =
          (None, h\<lparr>exitHook := Some hk,
                   trace := trace h @ map SignalNotify
                              (filter (\<lambda>s. s \<notin> set (capturing h)) [SIGINT, SIGTERM, SIGQUIT]),
                   capturing := capturing h
                              @ filter (\<lambda>s. s \<notin> set (capturing h)) [SIGINT, SIGTERM, SIGQUIT]\<rparr>))
   \<and> handler_Set sig None h = (Some ErrHookNil, h)
   \<and> (hookMap h sig \<noteq> None \<longrightarrow> handler_Set sig (Some hk) h = (Some (ErrSignalExists sig), h))
   \<and> (hookMap h sig = None \<longrightarrow>
        handler_Set sig (Some hk) h =
          (None, h\<lparr>hookMap := (hookMap h)(sig \<mapsto> hk),
                   trace := trace h @ map SignalNotify (filter (\<lambda>s. s \<notin> set (capturing h)) [sig]),
                   capturing := capturing h @ filter (\<lambda>s. s \<notin> set (capturing h)) [sig]\<rparr>))
   \<and> (fst (handler_SetExit hook h) \<noteq> None \<longrightarrow> snd (handler_SetExit hook h) = h)
   \<and> (fst (handler_Set sig hook h) \<noteq> None \<longrightarrow> snd (handler_Set sig hook h) = h)"
  by (simp add: handler_SetExit_def handler_setExit_def handler_Set_def handler_set_def
        capture_def SIGINT_def SIGTERM_def SIGQUIT_def split: option.split)

theorem SetExit_Set_results_witness:
  "exitHook newHandler = None
   \<and> handler_SetExit (Some (Given 0)) newHandler =
       (None, newHandler\<lparr>exitHook := Some (Given 0),
                trace := [SignalNotify SIGINT, SignalNotify SIGTERM, SignalNotify SIGQUIT],
                capturing := [SIGINT, SIGTERM, SIGQUIT]\<rparr>)
   \<and> handler_SetExit (Some (Given 1)) (snd (handler_SetExit (Some (Given 0)) newHandler)) =
       (Some ErrExitExists, snd (handler_SetExit (Some (Given 0)) newHandler))
   \<and> hookMap newHandler SIGINT = None
   \<and> handler_Set SIGINT (Some (Given 2)) (snd (handler_SetExit (Some (Given 0)) newHandler)) =
       (None, newHandler\<lparr>exitHook := Some (Given 0),
                hookMap := [SIGINT \<mapsto> Given 2],
                trace := [SignalNotify SIGINT, SignalNotify SIGTERM, SignalNotify SIGQUIT],
                capturing := [SIGINT, SIGTERM, SIGQUIT]\<rparr>)
   \<and> handler_Set SIGINT (Some (Given 3))
         (snd (handler_Set SIGINT (Some (Given 2)) newHandler)) =
       (Some (ErrSignalExists SIGINT), snd (handler_Set SIGINT (Some (Given 2)) newHandler))"
  using SetExit_Set_results
          [where h = newHandler and hk = "Given 0" and sig = SIGINT and hook = None]
        SetExit_Set_results
          [where h = "snd (handler_SetExit (Some (Given 0)) newHandler)" and hk = "Given 1"
             and sig = SIGINT and hook = "Some (Given 1)"]
        SetExit_Set_results
          [where h = "snd (handler_SetExit (Some (Given 0)) newHandler)" and hk = "Given 2"
             and sig = SIGINT and hook = None]
        SetExit_Set_results
          [where h = "snd (handler_Set SIGINT (Some (Given 2)) newHandler)" and hk = "Given 3"
             and sig = SIGINT and hook = "Some (Given 3)"]
  by (simp add: newHandler_def handler_SetExit_def handler_setExit_def handler_Set_def
        handler_set_def capture_def SIGINT_def SIGTERM_def SIGQUIT_def)

subsection \<open>Routing a signal\<close>



subsection \<open>Lookup that creates\<close>

text \<open>
  C8. \<open>Gets\<close> and \<open>GetsExit\<close> never return \<open>nil\<close>. When a hook is stored for the signal
  (as the exit hook) they return it and the handler as it was: nothing is made. Otherwise
  they make one hook with \<open>NewHook\<close>, store it for the signal (as the exit hook), start
  capturing as \<open>Set\<close> (\<open>SetExit\<close>) does, and return the new hook.
\<close>
theorem Gets_GetsExit_nonnull:
  "fst (handler_Gets sigString sig h) \<noteq> None
   \<and> (hookMap h sig = Some hk \<longrightarrow> handler_Gets sigString sig h = (Some hk, h))
   \<and> (hookMap h sig = None \<longrightarrow>
        handler_Gets sigString sig h =
          (Some (Created (length (heap h))),
           h\<lparr>heap := heap h @ [NewHook (''signal.'' @ replaceSpaces (sigString sig))
                                  (''Handle '' @ sigString sig @ '' signal'')],
             hookMap := (hookMap h)(sig \<mapsto> Created (length (heap h))),
             trace := trace h @ map SignalNotify (filter (\<lambda>s. s \<notin> set (capturing h)) [sig]),
             capturing := capturing h @ filter (\<lambda>s. s \<notin> set (capturing h)) [sig]\<rparr>))
   \<and> fst (handler_GetsExit h) \<noteq> None
   \<and> (exitHook h = Some hk \<longrightarrow> handler_GetsExit h = (Some hk, h))
   \<and> (exitHook h = None \<longrightarrow>
        handler_GetsExit h =
          (Some (Created (length (heap h))),
           h\<lparr>heap := heap h @ [NewHook ''exit'' ''Handle program exit''],
             exitHook := Some (Created (length (heap h))),
             trace := trace h @ map SignalNotify
                        (filter (\<lambda>s. s \<notin> set (capturing h)) [SIGINT, SIGTERM, SIGQUIT]),
             capturing := capturing h
                        @ filter (\<lambda>s. s \<notin> set (capturing h)) [SIGINT, SIGTERM, SIGQUIT]\<rparr>))"
  by (auto simp: handler_Gets_def handler_GetsExit_def allocHook_def handler_set_def
        handler_setExit_def capture_def SIGINT_def SIGTERM_def SIGQUIT_def split: option.split)

theorem Gets_GetsExit_nonnull_witness:
  "handler_Gets (\<lambda>s. ''user defined signal 1'') 10 newHandler =
     (Some (Created 0),
      newHandler\<lparr>heap := [NewHook ''signal.user_defined_signal_1''
                            ''Handle user defined signal 1 signal''],
        hookMap := [10 \<mapsto> Created 0], trace := [SignalNotify 10], capturing := [10]\<rparr>)
   \<and> handler_Gets (\<lambda>s. ''user defined signal 1'') 10
        (snd (handler_Set 10 (Some (Given 6)) newHandler)) =
     (Some (Given 6), snd (handler_Set 10 (Some (Given 6)) newHandler))
   \<and> handler_GetsExit newHandler =
     (Some (Created 0),
      newHandler\<lparr>heap := [NewHook ''exit'' ''Handle program exit''],
        exitHook := Some (Created 0),
        trace := [SignalNotify SIGINT, SignalNotify SIGTERM, SignalNotify SIGQUIT],
        capturing := [SIGINT, SIGTERM, SIGQUIT]\<rparr>)
   \<and> handler_GetsExit (snd (handler_SetExit (Some (Given 7)) newHandler)) =
     (Some (Given 7), snd (handler_SetExit (Some (Given 7)) newHandler))"
  using Gets_GetsExit_nonnull
          [where h = newHandler and sig = 10 and sigString = "\<lambda>s. ''user defined signal 1''"]
        Gets_GetsExit_nonnull
          [where h = "snd (handler_Set 10 (Some (Given 6)) newHandler)" and sig = 10
             and hk = "Given 6" and sigString = "\<lambda>s. ''user defined signal 1''"]
        Gets_GetsExit_nonnull
          [where h = "snd (handler_SetExit (Some (Given 7)) newHandler)" and hk = "Given 7"]
  by (simp add: newHandler_def replaceSpaces_def handler_Set_def handler_set_def
        handler_SetExit_def handler_setExit_def capture_def SIGINT_def SIGTERM_def SIGQUIT_def)

end
